theory Spec2Isabelle
  imports Complex_Main "HOL-Library.Sublist"
begin

section \<open>Python values, errors and strings\<close>

text \<open>
  The handlers of \<^verbatim>\<open>agent.py\<close> are plain Python functions, so an argument
  declared \<^verbatim>\<open>str\<close> can arrive as any object. The values that matter to the
  argument checks are \<^verbatim>\<open>None\<close>, a string, an integer and "some other object"
  (for instance the \<^verbatim>\<open>FieldInfo\<close> marker that \<^verbatim>\<open>Field(...)\<close> leaves as the
  default of a parameter); the last one carries the text that formatting it gives.

  A Python string is modelled by its UTF-8 text, a list of bytes. A string occurs
  in another one exactly when its text occurs in the other's text, and the slash is
  one byte that is part of no other character, so \<^verbatim>\<open>in\<close>, \<^verbatim>\<open>split("/")\<close> and
  \<^verbatim>\<open>replace("/", "_")\<close> work on the bytes. \<^verbatim>\<open>str.lower\<close> follows the Unicode
  character database and looks at the neighbours of a letter; it is a parameter
  \<open>str_lower\<close> of the functions that call it.
\<close>

datatype pyval = PyNone | PyStr string | PyInt int | PyObject string

text \<open>
  The exceptions: \<open>ValueError\<close> with the message of the \<^verbatim>\<open>raise\<close> statement,
  \<open>UnpackError\<close> for the \<^verbatim>\<open>ValueError\<close> that unpacking a sequence of the wrong
  length raises, \<open>AttributeError\<close> for a method call on an object that lacks the
  method, \<open>ValidationError\<close> for a pydantic model that rejects its input,
  \<open>OSError\<close> for a file that cannot be opened, \<open>AssertionError\<close> for a failed
  \<^verbatim>\<open>assert\<close> of the GitHub client, \<open>JSONDecodeError\<close> for a file that holds no
  JSON document, and \<open>GithubException\<close> for whatever else the data access layer
  raises (authentication, not found, network).
\<close>

datatype error =
    ValueError string
  | UnpackError
  | AttributeError
  | ValidationError
  | OSError
  | AssertionError
  | JSONDecodeError
  | GithubException string

text \<open>\<^verbatim>\<open>try: body except Exception as e: handler(e)\<close>.\<close>

definition try_except :: "error + 'a \<Rightarrow> (error \<Rightarrow> error + 'a) \<Rightarrow> error + 'a" where
  "try_except body handler = (case body of Inl e \<Rightarrow> handler e | Inr v \<Rightarrow> Inr v)"

fun isinstance_str :: "pyval \<Rightarrow> bool" where
  "isinstance_str (PyStr s) = True"
| "isinstance_str v = False"


text \<open>Decimal digits of a natural number, as \<^verbatim>\<open>str(n)\<close> prints them.\<close>

definition digit_char :: "nat \<Rightarrow> char" where
  "digit_char d = ''0123456789'' ! d"

fun str_nat :: "nat \<Rightarrow> string" where
  "str_nat n = (if n < 10 then [digit_char n] else str_nat (n div 10) @ [digit_char (n mod 10)])"

declare str_nat.simps [simp del]

definition str_int :: "int \<Rightarrow> string" where
  "str_int i = (if i < 0 then CHR ''-'' # str_nat (nat (- i)) else str_nat (nat i))"

text \<open>What an f-string substitutes for \<^verbatim>\<open>{v}\<close>.\<close>

fun format_value :: "pyval \<Rightarrow> string" where
  "format_value PyNone = ''None''"
| "format_value (PyStr s) = s"
| "format_value (PyInt i) = str_int i"
| "format_value (PyObject r) = r"

text \<open>A value between single quotes, as \<^verbatim>\<open>'{v}'\<close> in an f-string.\<close>

definition quoted :: "string \<Rightarrow> string" where
  "quoted s = CHR 0x27 # s @ [CHR 0x27]"


definition ascii_lower_char :: "char \<Rightarrow> char" where
  "ascii_lower_char c =
     (case map_of (zip ''ABCDEFGHIJKLMNOPQRSTUVWXYZ'' ''abcdefghijklmnopqrstuvwxyz'') c of
        Some l \<Rightarrow> l
      | None \<Rightarrow> c)"

definition ascii_lower :: "string \<Rightarrow> string" where
  "ascii_lower s = map ascii_lower_char s"


text \<open>The operator \<^verbatim>\<open>needle in hay\<close> on strings: some position of \<open>hay\<close>
  starts with \<open>needle\<close>.\<close>

fun str_in :: "string \<Rightarrow> string \<Rightarrow> bool" where
  "str_in needle [] = (needle = [])"
| "str_in needle (c # cs) = (prefix needle (c # cs) \<or> str_in needle cs)"

text \<open>\<^verbatim>\<open>s.split("/")\<close>: the pieces between the separators; a string with
  \<open>n\<close> separators has \<open>n + 1\<close> pieces, empty ones included.\<close>

fun split_slash :: "string \<Rightarrow> string list" where
  "split_slash [] = [[]]"
| "split_slash (c # cs) =
     (if c = CHR ''/'' then [] # split_slash cs
      else (case split_slash cs of
              [] \<Rightarrow> [[c]]
            | p # ps \<Rightarrow> (c # p) # ps))"

text \<open>\<^verbatim>\<open>"/".join(pieces)\<close>, the inverse of the split.\<close>

fun join_slash :: "string list \<Rightarrow> string" where
  "join_slash [] = []"
| "join_slash [x] = x"
| "join_slash (x # y # ys) = x @ CHR ''/'' # join_slash (y # ys)"

text \<open>\<^verbatim>\<open>s.replace("/", "_")\<close>.\<close>

definition replace_slash :: "string \<Rightarrow> string" where
  "replace_slash s = map (\<lambda>c. if c = CHR ''/'' then CHR ''_'' else c) s"

section \<open>The conversation store's file names (\<^verbatim>\<open>github_repo_assistant.py\<close>)\<close>

definition HISTORY_DIR :: string where
  "HISTORY_DIR = ''chat_history''"

text \<open>\<^verbatim>\<open>os.path.join(a, b)\<close> on POSIX, for two components.\<close>

definition os_path_join :: "string \<Rightarrow> string \<Rightarrow> string" where
  "os_path_join a b =
     (if b \<noteq> [] \<and> hd b = CHR ''/'' then b
      else if a = [] \<or> last a = CHR ''/'' then a @ b
      else a @ ''/'' @ b)"

text \<open>\<^verbatim>\<open>get_history_filename\<close>: \<^verbatim>\<open>None\<close> for an empty name, else the name
  with its slashes replaced, under the history directory.\<close>

definition get_history_filename :: "string \<Rightarrow> string option" where
  "get_history_filename repo_name =
     (if repo_name = [] then None
      else Some (os_path_join HISTORY_DIR (replace_slash repo_name @ ''_history.json'')))"

text \<open>A repository identifier in \<^verbatim>\<open>owner/name\<close> form: exactly one separator,
  with a non-empty owner before it and a non-empty name after it.\<close>

definition valid_repo_id :: "string \<Rightarrow> bool" where
  "valid_repo_id r =
     (case split_slash r of
        [owner, name] \<Rightarrow> owner \<noteq> [] \<and> name \<noteq> []
      | _ \<Rightarrow> False)"

definition repo_owner :: "string \<Rightarrow> string" where
  "repo_owner r = takeWhile (\<lambda>c. c \<noteq> CHR ''/'') r"

section \<open>The data access layer (\<^verbatim>\<open>github_utils.py\<close>)\<close>

text \<open>
  The dictionaries that the functions of \<^verbatim>\<open>github_utils.py\<close> build from the
  GitHub client's objects, one record per dictionary, one field per key. A
  timestamp is a \<^verbatim>\<open>datetime\<close> there and is kept as the text that stands for it.
\<close>

record repo_info =
  repo_short_name :: string
  repo_full_name :: string
  repo_description :: "string option"
  repo_html_url :: string
  repo_ssh_url :: string
  repo_clone_url :: string
  repo_language :: "string option"
  repo_private :: bool
  repo_created_at :: string
  repo_updated_at :: string
  repo_size :: int
  repo_stargazers_count :: int
  repo_forks_count :: int

record issue =
  issue_number :: int
  issue_title :: string
  issue_state :: string
  issue_html_url :: string
  issue_created_at :: string
  issue_updated_at :: string
  issue_user :: string
  issue_labels :: "string list"
  issue_comments :: int

record commit_stats =
  additions :: int
  deletions :: int
  total :: int

record commit =
  commit_sha :: string
  commit_html_url :: string
  commit_message :: string
  commit_author :: "string option"
  commit_committer :: "string option"
  commit_date :: string
  commit_stats :: commit_stats

text \<open>\<^verbatim>\<open>get_repository_content\<close> returns one dictionary with a type tag and
  the decoded content for a single file (or link, or submodule), and a list of
  dictionaries for a directory.\<close>

record dir_entry =
  entry_name :: string
  entry_path :: string
  entry_type :: string
  entry_size :: int
  entry_url :: string

record file_entry = dir_entry +
  entry_content :: "string option"

datatype repo_content = Single file_entry | Listing "dir_entry list"

text \<open>
  The functions themselves call the network, so they are parameters of the model:
  each takes its arguments in the order of its Python signature and returns the
  value or the exception. The \<^verbatim>\<open>state\<close> and \<^verbatim>\<open>path\<close> arguments are Python
  values, passed on as the handler holds them.
\<close>

record github_utils =
  list_user_repositories :: "string \<Rightarrow> string \<Rightarrow> error + repo_info list"
  list_repository_issues :: "string \<Rightarrow> pyval \<Rightarrow> string \<Rightarrow> error + issue list"
  list_repository_commits :: "string \<Rightarrow> pyval \<Rightarrow> string \<Rightarrow> error + commit list"
  get_repository_content :: "string \<Rightarrow> pyval \<Rightarrow> string \<Rightarrow> error + repo_content"

section \<open>The agent (\<^verbatim>\<open>agent.py\<close>)\<close>

record GitHubDependencies =
  token :: string
  repo_name :: string

subsection \<open>Output models\<close>

record IssueAnalysisResult =
  issues :: "issue list"
  issues_summary :: string


record RepositoryAnalysisResult =
  answer :: string
  sources :: "string list"
  confidence :: real

text \<open>
  The fields a candidate result arrives with, each present or missing. A finite
  floating point confidence is read as the real number it denotes; the bounds
  \<open>0.0\<close> and \<open>1.0\<close> are exact.
\<close>

record candidate_result =
  given_answer :: "string option"
  given_sources :: "string list option"
  given_confidence :: "real option"

text \<open>
  What the declaration of \<^verbatim>\<open>RepositoryAnalysisResult\<close> makes pydantic check:
  \<^verbatim>\<open>answer\<close> is required (\<^verbatim>\<open>Field(...)\<close>, no length constraint),
  \<^verbatim>\<open>sources\<close> defaults to the empty list, \<^verbatim>\<open>confidence\<close> is required with
  \<^verbatim>\<open>ge=0.0, le=1.0\<close>.
\<close>

definition validate_RepositoryAnalysisResult ::
  "candidate_result \<Rightarrow> error + RepositoryAnalysisResult" where
  "validate_RepositoryAnalysisResult c =
     (case given_answer c of
        None \<Rightarrow> Inl ValidationError
      | Some a \<Rightarrow>
          (case given_confidence c of
             None \<Rightarrow> Inl ValidationError
           | Some x \<Rightarrow>
               if 0 \<le> x \<and> x \<le> 1
               then Inr \<lparr>answer = a,
                         sources = (case given_sources c of None \<Rightarrow> [] | Some ss \<Rightarrow> ss),
                         confidence = x\<rparr>
               else Inl ValidationError))"

subsection \<open>The system prompt\<close>

definition fallback_instruction :: "string \<Rightarrow> string" where
  "fallback_instruction rn =
     ''You are currently answering questions about the repository: '' @ rn"

text \<open>\<^verbatim>\<open>x or default\<close> for an optional string: \<^verbatim>\<open>None\<close> and the empty string
  are both falsy.\<close>

definition or_default :: "string option \<Rightarrow> string \<Rightarrow> string" where
  "or_default x d = (case x of None \<Rightarrow> d | Some v \<Rightarrow> if v = [] then d else v)"

definition enriched_instruction :: "string \<Rightarrow> repo_info \<Rightarrow> string \<Rightarrow> string \<Rightarrow> string" where
  "enriched_instruction rn info today now =
     concat
      [''\<newline>'',
       ''            if you need addtional information from the repository to answer the question here is the repository info\<newline>'',
       ''             \<newline>'',
       ''            Repository name: '', rn, ''\<newline>'',
       ''            Repository details:\<newline>'',
       ''            - Description: '', or_default (repo_description info) ''No description provided'', ''\<newline>'',
       ''            - Primary language: '', or_default (repo_language info) ''Not specified'', ''\<newline>'',
       ''            - Stars: '', str_int (repo_stargazers_count info), ''\<newline>'',
       ''            - Forks: '', str_int (repo_forks_count info), ''\<newline>'',
       ''            - Last updated: '', repo_updated_at info, ''\<newline>'',
       ''            \<newline>'',
       ''\<newline>'',
       ''\<newline>'',
       ''            today's date is '', today, '' and the time now is '', now, ''\<newline>'',
       ''            '']"

text \<open>
  \<^verbatim>\<open>repository_context\<close>. The identifier is split and unpacked into two names
  before the \<^verbatim>\<open>try\<close>; inside it the repositories of the owner are fetched and
  the first one with the identifier as full name is looked up. \<open>today\<close> and
  \<open>now\<close> are the two readings of the clock, already formatted.
\<close>

definition repository_context ::
  "github_utils \<Rightarrow> string \<Rightarrow> string \<Rightarrow> GitHubDependencies \<Rightarrow> error + string" where
  "repository_context gh today now deps =
     (case split_slash (repo_name deps) of
        [username, repo] \<Rightarrow>
          try_except
            (case list_user_repositories gh (token deps) username of
               Inl e \<Rightarrow> Inl e
             | Inr repos \<Rightarrow>
                 (case find (\<lambda>r. repo_full_name r = repo_name deps) repos of
                    Some info \<Rightarrow> Inr (enriched_instruction (repo_name deps) info today now)
                  | None \<Rightarrow> Inr (fallback_instruction (repo_name deps))))
            (\<lambda>e. Inr (fallback_instruction (repo_name deps)))
      | _ \<Rightarrow> Inl UnpackError)"

subsection \<open>The tools\<close>

text \<open>Every tool logs and re-raises what its body raises, so an exception of the
  body is the exception of the tool.\<close>

definition list_issues :: "github_utils \<Rightarrow> GitHubDependencies \<Rightarrow> pyval \<Rightarrow> error + issue list" where
  "list_issues gh deps state =
     list_repository_issues gh (repo_name deps) state (token deps)"

text \<open>The test of one issue against the lowered query.\<close>

definition issue_matches :: "(string \<Rightarrow> string) \<Rightarrow> string \<Rightarrow> issue \<Rightarrow> bool" where
  "issue_matches str_lower query_lower i =
     (str_in query_lower (str_lower (issue_title i)) \<or>
      list_ex (\<lambda>label. str_in query_lower (str_lower label)) (issue_labels i))"

definition analyze_issues ::
  "(string \<Rightarrow> string) \<Rightarrow> github_utils \<Rightarrow> GitHubDependencies \<Rightarrow> pyval \<Rightarrow> pyval
     \<Rightarrow> error + IssueAnalysisResult" where
  "analyze_issues str_lower gh deps query state0 =
     (let state = (if state0 \<noteq> PyNone \<and> \<not> isinstance_str state0 then PyStr ''all'' else state0)
      in case list_repository_issues gh (repo_name deps) state (token deps) of
           Inl e \<Rightarrow> Inl e
         | Inr fetched \<Rightarrow>
             (case query of
                PyStr q \<Rightarrow>
                  (let query_lower = str_lower q;
                       matching_issues = filter (issue_matches str_lower query_lower) fetched;
                       summary =
                         (if length matching_issues = 0
                          then ''No issues found matching '' @ quoted q @ '' with state ''
                                 @ quoted (format_value state) @ ''.''
                          else ''Found '' @ str_nat (length matching_issues)
                                 @ '' issues matching '' @ quoted q @ '' with state ''
                                 @ quoted (format_value state) @ ''.'')
                   in Inr \<lparr>issues = matching_issues, issues_summary = summary\<rparr>)
              | _ \<Rightarrow> Inl AttributeError))"

definition list_commits :: "github_utils \<Rightarrow> GitHubDependencies \<Rightarrow> pyval \<Rightarrow> error + commit list" where
  "list_commits gh deps path0 =
     (let path = (if path0 \<noteq> PyNone \<and> \<not> isinstance_str path0 then PyNone else path0)
      in list_repository_commits gh (repo_name deps) path (token deps))"



text \<open>\<^verbatim>\<open>get_file_content\<close>: the content must be a dictionary whose type tag is
  \<^verbatim>\<open>file\<close>.\<close>

definition get_file_content :: "github_utils \<Rightarrow> GitHubDependencies \<Rightarrow> pyval \<Rightarrow> error + file_entry" where
  "get_file_content gh deps path =
     (case get_repository_content gh (repo_name deps) path (token deps) of
        Inl e \<Rightarrow> Inl e
      | Inr content \<Rightarrow>
          (case content of
             Single d \<Rightarrow>
               if entry_type d \<noteq> ''file''
               then Inl (ValueError (''Path '' @ quoted (format_value path) @ '' does not point to a file''))
               else Inr d
           | Listing ds \<Rightarrow>
               Inl (ValueError (''Path '' @ quoted (format_value path) @ '' does not point to a file''))))"

text \<open>\<^verbatim>\<open>list_directory_contents\<close>: the content must be a list.\<close>

definition list_directory_contents ::
  "github_utils \<Rightarrow> GitHubDependencies \<Rightarrow> pyval \<Rightarrow> error + dir_entry list" where
  "list_directory_contents gh deps path =
     (case get_repository_content gh (repo_name deps) path (token deps) of
        Inl e \<Rightarrow> Inl e
      | Inr contents \<Rightarrow>
          (case contents of
             Listing ds \<Rightarrow> Inr ds
           | Single d \<Rightarrow>
               Inl (ValueError (''Path '' @ quoted (format_value path) @ '' does not point to a directory''))))"

subsection \<open>The conversation store\<close>

text \<open>
  The file system that \<^verbatim>\<open>open\<close> and \<^verbatim>\<open>os.path.exists\<close> see: a path names
  a regular file with its text, a directory, or nothing. The type \<open>'t\<close> of the
  texts is left open. Permissions and free space are not modelled.
\<close>

datatype 't node = File 't | Dir

type_synonym 't filesystem = "string \<Rightarrow> 't node option"

definition os_path_exists :: "'t filesystem \<Rightarrow> string \<Rightarrow> bool" where
  "os_path_exists fs p = (fs p \<noteq> None)"

text \<open>\<^verbatim>\<open>os.path.dirname\<close> on POSIX: the path up to its last slash, without
  trailing slashes unless it consists of slashes only.\<close>

definition os_path_dirname :: "string \<Rightarrow> string" where
  "os_path_dirname p =
     (let head = rev (dropWhile (\<lambda>c. c \<noteq> CHR ''/'') (rev p))
      in if head \<noteq> [] \<and> \<not> list_all (\<lambda>c. c = CHR ''/'') head
         then rev (dropWhile (\<lambda>c. c = CHR ''/'') (rev head))
         else head)"

text \<open>
  The file system is keyed by plain relative paths: names separated by single
  slashes, each name non-empty, neither \<^verbatim>\<open>.\<close> nor \<^verbatim>\<open>..\<close>, at most 255 bytes long
  and free of the NUL byte, the whole path shorter than 4096 bytes. These are the
  paths that name one place only; the history files of the application have this
  form. \<^verbatim>\<open>open(p, 'w')\<close> is modelled on them: it succeeds when \<open>p\<close> is no
  directory and the directory part of \<open>p\<close>, if there is one, is a directory, and
  gives the file to write to, which is known by its path. Any other path is
  refused: a trailing slash, an over-long name and a NUL byte make Python's
  \<^verbatim>\<open>open\<close> fail too, the remaining ones (absolute paths, \<^verbatim>\<open>.\<close> and \<^verbatim>\<open>..\<close>, doubled
  slashes) lie outside the model, and nothing is stated about a save to them.
\<close>

definition plain_name :: "string \<Rightarrow> bool" where
  "plain_name n =
     (n \<noteq> [] \<and> n \<noteq> ''.'' \<and> n \<noteq> ''..'' \<and> length n \<le> 255 \<and> CHR 0x00 \<notin> set n)"

definition plain_path :: "string \<Rightarrow> bool" where
  "plain_path p = (length p < 4096 \<and> list_all plain_name (split_slash p))"

definition open_w :: "'t filesystem \<Rightarrow> string \<Rightarrow> error + string" where
  "open_w fs p =
     (if \<not> plain_path p then Inl OSError
      else if fs p = Some Dir then Inl OSError
      else if os_path_dirname p \<noteq> [] \<and> fs (os_path_dirname p) \<noteq> Some Dir then Inl OSError
      else Inr p)"

definition open_r :: "'t filesystem \<Rightarrow> string \<Rightarrow> error + 't" where
  "open_r fs p =
     (case fs p of
        Some (File text) \<Rightarrow> Inr text
      | Some Dir \<Rightarrow> Inl OSError
      | None \<Rightarrow> Inl OSError)"

text \<open>
  The library calls of the store, as parameters: \<^verbatim>\<open>to_jsonable_python\<close> and
  \<^verbatim>\<open>ModelMessagesTypeAdapter.validate_python\<close> of pydantic, between messages
  \<open>'m\<close> and JSON values \<open>'j\<close>, and \<^verbatim>\<open>json.dump\<close> and \<^verbatim>\<open>json.load\<close> between
  JSON values and text.
\<close>

record ('m, 'j, 't) serializer =
  to_jsonable_python :: "'m list \<Rightarrow> error + 'j"
  json_dump :: "'j \<Rightarrow> 't"
  json_load :: "'t \<Rightarrow> error + 'j"
  validate_python :: "'j \<Rightarrow> error + 'm list"

text \<open>\<^verbatim>\<open>save_messages_to_json\<close> returns nothing; its effect is the file system
  after it: the opened file holds the dumped text. Every exception is logged and
  dropped.\<close>

definition save_messages_to_json ::
  "('m, 'j, 't) serializer \<Rightarrow> 'm list \<Rightarrow> string \<Rightarrow> 't filesystem \<Rightarrow> error + 't filesystem" where
  "save_messages_to_json ser messages filename fs =
     try_except
       (case to_jsonable_python ser messages of
          Inl e \<Rightarrow> Inl e
        | Inr serialized \<Rightarrow>
            (case open_w fs filename of
               Inl e \<Rightarrow> Inl e
             | Inr f \<Rightarrow> Inr (fs(f \<mapsto> File (json_dump ser serialized)))))
       (\<lambda>e. Inr fs)"

definition load_messages_from_json ::
  "('m, 'j, 't) serializer \<Rightarrow> 't filesystem \<Rightarrow> string \<Rightarrow> error + 'm list" where
  "load_messages_from_json ser fs filename =
     try_except
       (if \<not> os_path_exists fs filename then Inr []
        else case open_r fs filename of
               Inl e \<Rightarrow> Inl e
             | Inr text \<Rightarrow>
                 (case json_load ser text of
                    Inl e \<Rightarrow> Inl e
                  | Inr serialized \<Rightarrow> validate_python ser serialized))
       (\<lambda>e. Inr [])"

text \<open>Loading after saving at the same location: the file system that the save
  leaves, or the error of the save, goes to the load.\<close>

definition load_after_save ::
  "('m, 'j, 't) serializer \<Rightarrow> 'm list \<Rightarrow> string \<Rightarrow> 't filesystem \<Rightarrow> error + 'm list" where
  "load_after_save ser messages filename fs =
     (case save_messages_to_json ser messages filename fs of
        Inl e \<Rightarrow> Inl e
      | Inr fs' \<Rightarrow> load_messages_from_json ser fs' filename)"

subsection \<open>Messages and their JSON form\<close>

text \<open>
  The values that a message carries as tool arguments or as the return value of a
  tool: the values that JSON has (\<^verbatim>\<open>None\<close>, booleans, integers, finite floats,
  strings, lists, dictionaries with string keys), and the two kinds of Python
  object that the tools of \<^verbatim>\<open>agent.py\<close> return besides them: a \<^verbatim>\<open>datetime\<close>,
  held as the ISO text that stands for it, and an instance of a pydantic model,
  held as its class name and fields.
\<close>

datatype payload =
    PNull
  | PBool bool
  | PInt int
  | PFloat real
  | PText string
  | PList "payload list"
  | PDict "(string \<times> payload) list"
  | PDatetime string
  | PModel string "(string \<times> payload) list"

text \<open>
  A message of the history, after the specification's data model: a user turn, an
  assistant turn, a tool call with the tool's name and arguments, or a tool result
  with the tool's name and the returned value. (The library's classes also stamp
  the parts with a time, which both library calls carry over; it is left out.)
\<close>

datatype message =
    UserMessage string
  | AssistantMessage string
  | ToolCall string payload
  | ToolResult string payload

text \<open>
  \<^verbatim>\<open>to_jsonable_python\<close> on a value: a \<^verbatim>\<open>datetime\<close> becomes its ISO text, a model
  instance becomes the dictionary of its fields, lists and dictionaries are
  converted inside, and a JSON value stays.
\<close>

primrec to_jsonable :: "payload \<Rightarrow> payload" where
  "to_jsonable PNull = PNull"
| "to_jsonable (PBool b) = PBool b"
| "to_jsonable (PInt i) = PInt i"
| "to_jsonable (PFloat x) = PFloat x"
| "to_jsonable (PText s) = PText s"
| "to_jsonable (PList xs) = PList (map to_jsonable xs)"
| "to_jsonable (PDict kvs) = PDict (map (map_prod id to_jsonable) kvs)"
| "to_jsonable (PDatetime stamp) = PText stamp"
| "to_jsonable (PModel cls attrs) = PDict (map (map_prod id to_jsonable) attrs)"

text \<open>The values that JSON has.\<close>

primrec json_native :: "payload \<Rightarrow> bool" where
  "json_native PNull = True"
| "json_native (PBool b) = True"
| "json_native (PInt i) = True"
| "json_native (PFloat x) = True"
| "json_native (PText s) = True"
| "json_native (PList xs) = list_all (\<lambda>b. b) (map json_native xs)"
| "json_native (PDict kvs) = list_all snd (map (map_prod id json_native) kvs)"
| "json_native (PDatetime stamp) = False"
| "json_native (PModel cls attrs) = False"

fun jsonable_message :: "message \<Rightarrow> message" where
  "jsonable_message (UserMessage s) = UserMessage s"
| "jsonable_message (AssistantMessage s) = AssistantMessage s"
| "jsonable_message (ToolCall name args) = ToolCall name (to_jsonable args)"
| "jsonable_message (ToolResult name content) = ToolResult name (to_jsonable content)"

fun native_message :: "message \<Rightarrow> bool" where
  "native_message (UserMessage s) = True"
| "native_message (AssistantMessage s) = True"
| "native_message (ToolCall name args) = json_native args"
| "native_message (ToolResult name content) = json_native content"

text \<open>
  The text of a file: the JSON document of a value, or some other text.
  \<^verbatim>\<open>json.dump\<close> writes the document of a value and \<^verbatim>\<open>json.load\<close> reads the value
  of a document back; on other text it fails.
\<close>

datatype 'j json_text = JsonOf 'j | NotJson string

text \<open>
  The store's library calls on these messages. The JSON form of a history is the
  history with every carried value in its JSON form. \<^verbatim>\<open>validate_python\<close> builds
  the messages of a document again; the arguments and the returned value of a tool
  are fields of type \<^verbatim>\<open>Any\<close>, which take the JSON value as it is.
\<close>

definition pydantic_serializer :: "(message, message list, message list json_text) serializer" where
  "pydantic_serializer =
     \<lparr>to_jsonable_python = (\<lambda>messages. Inr (map jsonable_message messages)),
      json_dump = JsonOf,
      json_load = (\<lambda>text. case text of JsonOf j \<Rightarrow> Inr j | NotJson s \<Rightarrow> Inl JSONDecodeError),
      validate_python =
        (\<lambda>j. if list_all native_message j then Inr j else Inl ValidationError)\<rparr>"

text \<open>
  What the tools hand to the history as their returned value: the dictionary that
  \<^verbatim>\<open>list_repository_issues\<close> builds for an issue, with its two \<^verbatim>\<open>datetime\<close>
  entries, and the \<^verbatim>\<open>IssueAnalysisResult\<close> instance that \<^verbatim>\<open>analyze_issues\<close>
  returns.
\<close>

definition issue_dict :: "issue \<Rightarrow> payload" where
  "issue_dict i =
     PDict [(''number'', PInt (issue_number i)),
            (''title'', PText (issue_title i)),
            (''state'', PText (issue_state i)),
            (''html_url'', PText (issue_html_url i)),
            (''created_at'', PDatetime (issue_created_at i)),
            (''updated_at'', PDatetime (issue_updated_at i)),
            (''user'', PText (issue_user i)),
            (''labels'', PList (map PText (issue_labels i))),
            (''comments'', PInt (issue_comments i))]"

definition IssueAnalysisResult_value :: "IssueAnalysisResult \<Rightarrow> payload" where
  "IssueAnalysisResult_value r =
     PModel ''IssueAnalysisResult''
       [(''issues'', PList (map issue_dict (issues r))),
        (''summary'', PText (issues_summary r))]"

text \<open>The dictionary that \<^verbatim>\<open>get_file_content\<close> returns.\<close>

definition file_entry_dict :: "file_entry \<Rightarrow> payload" where
  "file_entry_dict d =
     PDict [(''name'', PText (entry_name d)),
            (''path'', PText (entry_path d)),
            (''type'', PText (entry_type d)),
            (''size'', PInt (entry_size d)),
            (''url'', PText (entry_url d)),
            (''content'', (case entry_content d of None \<Rightarrow> PNull | Some text \<Rightarrow> PText text))]"

section \<open>Sample environments\<close>

text \<open>A serializer for histories of characters: the JSON value of a history is its
  text.\<close>

definition text_serializer :: "(char, string, string) serializer" where
  "text_serializer =
     \<lparr>to_jsonable_python = Inr, json_dump = (\<lambda>j. j), json_load = Inr, validate_python = Inr\<rparr>"

text \<open>A file system that holds the history directory and nothing else, and one
  that holds nothing.\<close>

definition history_fs :: "message list json_text filesystem" where
  "history_fs = [HISTORY_DIR \<mapsto> Dir]"

definition empty_fs :: "'t filesystem" where
  "empty_fs = Map.empty"

text \<open>The two issues and the two commits of the specification's examples.\<close>

definition issue_fix_bug :: issue where
  "issue_fix_bug =
     \<lparr>issue_number = 1, issue_title = ''Fix bug'', issue_state = ''open'',
      issue_html_url = [], issue_created_at = ''2024-05-01T10:00:00Z'',
      issue_updated_at = ''2024-05-02T09:30:00Z'',
      issue_user = ''octocat'', issue_labels = [''bug''], issue_comments = 0\<rparr>"

definition issue_add_feature :: issue where
  "issue_add_feature =
     \<lparr>issue_number = 2, issue_title = ''Add feature'', issue_state = ''open'',
      issue_html_url = [], issue_created_at = ''2024-05-01T10:00:00Z'',
      issue_updated_at = ''2024-05-02T09:30:00Z'',
      issue_user = ''octocat'', issue_labels = [''enhancement''], issue_comments = 0\<rparr>"

definition commit_fix_null :: commit where
  "commit_fix_null =
     \<lparr>commit_sha = ''a1'', commit_html_url = [], commit_message = ''Fix null pointer'',
      commit_author = None, commit_committer = None, commit_date = ''2024-05-01T10:00:00Z'',
      commit_stats = \<lparr>additions = 1, deletions = 1, total = 2\<rparr>\<rparr>"

definition commit_add_docs :: commit where
  "commit_add_docs =
     \<lparr>commit_sha = ''b2'', commit_html_url = [], commit_message = ''Add docs'',
      commit_author = None, commit_committer = None, commit_date = ''2024-05-01T10:00:00Z'',
      commit_stats = \<lparr>additions = 3, deletions = 0, total = 3\<rparr>\<rparr>"

definition readme_entry :: file_entry where
  "readme_entry =
     \<lparr>entry_name = ''README.md'', entry_path = ''README.md'', entry_type = ''file'',
      entry_size = 5, entry_url = [], entry_content = Some ''hello''\<rparr>"

text \<open>
  A data access layer for the samples. The user \<^verbatim>\<open>octocat\<close> has no repository
  and no other user is known, it accepts a \<^verbatim>\<open>state\<close> or a \<^verbatim>\<open>path\<close> only when it is a string or \<^verbatim>\<open>None\<close>
  (the GitHub client asserts the type of both and fails on anything else), and the
  repository holds one file, \<^verbatim>\<open>README.md\<close>, in its root directory.
\<close>

definition sample_github :: github_utils where
  "sample_github =
     \<lparr>list_user_repositories =
        (\<lambda>tok username.
           if username = ''octocat'' then Inr [] else Inl (GithubException ''Not Found'')),
      list_repository_issues =
        (\<lambda>rn state tok.
           case state of
             PyStr s \<Rightarrow> Inr [issue_fix_bug, issue_add_feature]
           | _ \<Rightarrow> Inl AssertionError),
      list_repository_commits =
        (\<lambda>rn path tok.
           case path of
             PyNone \<Rightarrow> Inr [commit_fix_null, commit_add_docs]
           | PyStr s \<Rightarrow> Inr [commit_fix_null, commit_add_docs]
           | _ \<Rightarrow> Inl AssertionError),
      get_repository_content =
        (\<lambda>rn path tok.
           if path = PyStr ''README.md'' then Inr (Single readme_entry)
           else if path = PyStr [] then Inr (Listing [dir_entry.truncate readme_entry])
           else Inl (GithubException ''Not Found''))\<rparr>"

definition sample_deps :: GitHubDependencies where
  "sample_deps = \<lparr>token = ''t'', repo_name = ''octocat/hello''\<rparr>"


text \<open>
  A sample of \<^verbatim>\<open>str.lower\<close>: Python's value on ASCII text and on two Greek strings,
  the capital sigma (U+03A3) alone, which becomes the small sigma (U+03C3), and
  the capital alpha and sigma (U+0391 U+03A3), which become the small alpha and the
  final small sigma (U+03B1 U+03C2). On other text with letters outside ASCII it is
  not Python's function, and nothing below evaluates it there.
\<close>

definition capital_sigma :: string where
  "capital_sigma = [CHR 0xCE, CHR 0xA3]"

definition capital_alpha_sigma :: string where
  "capital_alpha_sigma = [CHR 0xCE, CHR 0x91, CHR 0xCE, CHR 0xA3]"

definition sample_lower :: "string \<Rightarrow> string" where
  "sample_lower s =
     (if s = capital_sigma then [CHR 0xCF, CHR 0x83]
      else if s = capital_alpha_sigma then [CHR 0xCE, CHR 0xB1, CHR 0xCF, CHR 0x82]
      else ascii_lower s)"




text \<open>
  Two histories. In the first the assistant called \<^verbatim>\<open>analyze_issues\<close> and the
  history holds the returned \<^verbatim>\<open>IssueAnalysisResult\<close>; in the second it called
  \<^verbatim>\<open>get_file_content\<close>, whose dictionary holds JSON values only.
\<close>

definition issues_history :: "message list" where
  "issues_history =
     [UserMessage ''Which issues mention a bug?'',
      ToolCall ''analyze_issues'' (PDict [(''query'', PText ''bug'')]),
      ToolResult ''analyze_issues''
        (IssueAnalysisResult_value
           \<lparr>issues = [issue_fix_bug],
            issues_summary = ''Found 1 issues matching 'bug' with state 'all'.''\<rparr>),
      AssistantMessage ''One issue mentions a bug: Fix bug.'']"

definition readme_history :: "message list" where
  "readme_history =
     [UserMessage ''What does the README say?'',
      ToolCall ''get_file_content'' (PDict [(''path'', PText ''README.md'')]),
      ToolResult ''get_file_content'' (file_entry_dict readme_entry),
      AssistantMessage ''It says hello.'']"

section \<open>The specification's matching\<close>




section \<open>Strings\<close>

lemma str_nat_1: "str_nat (Suc 0) = ''1''"
  by (simp add: str_nat.simps digit_char_def)


text \<open>The split and the join are inverse, and no piece holds a separator.\<close>

lemma split_slash_ne: "split_slash s \<noteq> []"
  by (induction s) (simp_all split: list.split)

lemma join_split_slash: "join_slash (split_slash s) = s"
proof (induction s)
  case Nil
  show ?case by simp
next
  case (Cons c cs)
  obtain u us where u: "split_slash cs = u # us"
    using split_slash_ne[of cs] by (cases "split_slash cs") auto
  show ?case using Cons u by (cases us) auto
qed

lemma split_slash_pieces: "x \<in> set (split_slash s) \<Longrightarrow> CHR ''/'' \<notin> set x"
proof (induction s arbitrary: x)
  case Nil
  then show ?case by simp
next
  case (Cons c cs)
  obtain u us where u: "split_slash cs = u # us"
    using split_slash_ne[of cs] by (cases "split_slash cs") auto
  show ?case using Cons u by (auto split: if_splits)
qed

lemma split_slash_no_sep: "CHR ''/'' \<notin> set p \<Longrightarrow> split_slash p = [p]"
  by (induction p) auto

lemma split_slash_sep:
  "CHR ''/'' \<notin> set p \<Longrightarrow> split_slash (p @ CHR ''/'' # r) = p # split_slash r"
  by (induction p) auto

lemma split_slash_pair:
  "(split_slash s = [p, q]) =
   (s = p @ CHR ''/'' # q \<and> CHR ''/'' \<notin> set p \<and> CHR ''/'' \<notin> set q)"
proof
  assume a: "split_slash s = [p, q]"
  have "s = join_slash [p, q]" using join_split_slash[of s] a by simp
  moreover have "CHR ''/'' \<notin> set p" "CHR ''/'' \<notin> set q"
    using split_slash_pieces[of p s] split_slash_pieces[of q s] a by simp_all
  ultimately show "s = p @ CHR ''/'' # q \<and> CHR ''/'' \<notin> set p \<and> CHR ''/'' \<notin> set q" by simp
next
  assume "s = p @ CHR ''/'' # q \<and> CHR ''/'' \<notin> set p \<and> CHR ''/'' \<notin> set q"
  then show "split_slash s = [p, q]"
    by (simp add: split_slash_sep split_slash_no_sep)
qed

lemma length_split_slash: "length (split_slash s) = Suc (count_list s CHR ''/'')"
proof (induction s)
  case Nil
  show ?case by simp
next
  case (Cons c cs)
  obtain q qs where q: "split_slash cs = q # qs"
    using split_slash_ne[of cs] by (cases "split_slash cs") auto
  then show ?case using Cons by auto
qed

lemma split_slash_two: "(\<exists>u r. split_slash s = [u, r]) = (count_list s CHR ''/'' = 1)"
proof -
  have "(\<exists>u r. split_slash s = [u, r]) = (length (split_slash s) = 2)"
    by (auto simp: length_Suc_conv numeral_2_eq_2)
  then show ?thesis by (simp add: length_split_slash)
qed

lemma replace_slash_append: "replace_slash (a @ b) = replace_slash a @ replace_slash b"
  by (simp add: replace_slash_def)

lemma replace_slash_sep: "replace_slash (CHR ''/'' # q) = CHR ''_'' # replace_slash q"
  by (simp add: replace_slash_def)

lemma replace_slash_id: "CHR ''/'' \<notin> set s \<Longrightarrow> replace_slash s = s"
  by (induction s) (auto simp: replace_slash_def)

lemma replace_slash_no_slash: "CHR ''/'' \<notin> set (replace_slash s)"
  by (auto simp: replace_slash_def)

lemma takeWhile_sep: "c \<notin> set p \<Longrightarrow> takeWhile (\<lambda>x. x \<noteq> c) (p @ c # q) = p"
  by (induction p) auto

section \<open>Exceptions\<close>

lemma try_except_Inr [simp]: "try_except (Inr v) h = Inr v"
  by (simp add: try_except_def)

lemma try_except_Inl [simp]: "try_except (Inl e) h = h e"
  by (simp add: try_except_def)

lemma try_except_total: "(\<And>e. \<exists>v. h e = Inr v) \<Longrightarrow> \<exists>v. try_except body h = Inr v"
  by (cases body) (auto simp: try_except_def)

section \<open>Folding the case of ASCII text\<close>











lemma sample_lower_words:
  "sample_lower ''bug'' = ''bug''" "sample_lower ''Fix bug'' = ''fix bug''"
  "sample_lower ''Add feature'' = ''add feature''" "sample_lower ''enhancement'' = ''enhancement''"
  "sample_lower ''BUG'' = ''bug''"
  "sample_lower ''fix'' = ''fix''" "sample_lower ''Fix null pointer'' = ''fix null pointer''"
  "sample_lower ''Add docs'' = ''add docs''"
  by (simp_all add: sample_lower_def capital_sigma_def capital_alpha_sigma_def ascii_lower_def
      ascii_lower_char_def)


section \<open>JSON values\<close>

lemma json_native_to_jsonable: "json_native (to_jsonable p)"
  by (induction p) (auto simp: list_all_iff)

lemma map_fixed: "(map f xs = xs) = (\<forall>x\<in>set xs. f x = x)"
  by (induction xs) auto

lemma to_jsonable_fixed: "(to_jsonable p = p) = json_native p"
proof (induction p)
  case (PList xs)
  then show ?case by (simp add: map_fixed list_all_iff)
next
  case (PDict kvs)
  have "(map (map_prod id to_jsonable) kvs = kvs) = (\<forall>kv\<in>set kvs. to_jsonable (snd kv) = snd kv)"
    unfolding map_fixed by (auto simp: map_prod_def split: prod.splits)
  also have "\<dots> = (\<forall>kv\<in>set kvs. json_native (snd kv))"
    using PDict by (metis snds.simps prod.collapse)
  finally show ?case by (simp add: list_all_iff)
qed simp_all

lemma native_jsonable_message: "native_message (jsonable_message m)"
  by (cases m) (simp_all add: json_native_to_jsonable)

lemma jsonable_message_fixed: "(jsonable_message m = m) = native_message m"
  by (cases m) (simp_all add: to_jsonable_fixed)

lemma jsonable_history_fixed: "(map jsonable_message ms = ms) = list_all native_message ms"
  by (simp add: map_fixed jsonable_message_fixed list_all_iff)


section \<open>The result validator\<close>

text \<open>
  Claim C1, as far as the declaration of the model goes. A result that the
  validator lets through carries the confidence and the answer of the candidate,
  and the confidence lies between 0 and 1; a candidate with a confidence outside
  that interval, such as 1.5, is rejected with a validation error and is not
  clamped. Nothing is said about the length of the answer: the field has no
  length constraint.
\<close>
theorem validated_result_confidence_in_range:
  "(validate_RepositoryAnalysisResult c = Inr r \<longrightarrow>
      0 \<le> confidence r \<and> confidence r \<le> 1 \<and> given_confidence c = Some (confidence r)
      \<and> given_answer c = Some (answer r))
   \<and> (x < 0 \<or> 1 < x \<longrightarrow>
        validate_RepositoryAnalysisResult (c\<lparr>given_confidence := Some x\<rparr>) = Inl ValidationError)
   \<and> validate_RepositoryAnalysisResult (c\<lparr>given_confidence := Some 1.5\<rparr>) = Inl ValidationError"
  by (auto simp: validate_RepositoryAnalysisResult_def split: option.splits if_splits)

text \<open>The invariant at a candidate with confidence 0.9, and the rejection at 2.\<close>
theorem validated_result_confidence_witness:
  "validate_RepositoryAnalysisResult
     \<lparr>given_answer = Some ''It is a parser.'', given_sources = Some [''README.md''],
      given_confidence = Some 0.9\<rparr>
     = Inr \<lparr>answer = ''It is a parser.'', sources = [''README.md''], confidence = 0.9\<rparr>
   \<and> 0 \<le> confidence \<lparr>answer = ''It is a parser.'', sources = [''README.md''], confidence = 0.9\<rparr>
   \<and> confidence \<lparr>answer = ''It is a parser.'', sources = [''README.md''], confidence = 0.9\<rparr> \<le> 1
   \<and> (1::real) < 2
   \<and> validate_RepositoryAnalysisResult
        \<lparr>given_answer = Some ''It is a parser.'', given_sources = Some [''README.md''],
         given_confidence = Some 2\<rparr> = Inl ValidationError"
  using validated_result_confidence_in_range
    [of "\<lparr>given_answer = Some ''It is a parser.'', given_sources = Some [''README.md''],
          given_confidence = Some 0.9\<rparr>"
        "\<lparr>answer = ''It is a parser.'', sources = [''README.md''], confidence = 0.9\<rparr>" 2]
  by (simp add: validate_RepositoryAnalysisResult_def)

text \<open>
  Claim C1 as it is written also asks for a non-empty answer whenever a result is
  produced. The validator produces a result for a candidate whose answer is the
  empty string.
\<close>
theorem empty_answer_accepted:
  "validate_RepositoryAnalysisResult
     \<lparr>given_answer = Some [], given_sources = None, given_confidence = Some 0.5\<rparr>
     = Inr \<lparr>answer = [], sources = [], confidence = 0.5\<rparr>"
  by (simp add: validate_RepositoryAnalysisResult_def)

section \<open>Optional parameters of the tools\<close>

text \<open>
  Claim C2 asks every tool to replace an optional argument that is not a string by
  its declared default. \<^verbatim>\<open>list_issues\<close> hands its \<^verbatim>\<open>state\<close> to the data access
  layer as it came: with the \<^verbatim>\<open>FieldInfo\<close> marker the call fails on the sample
  layer's type assertion, where \<^verbatim>\<open>analyze_issues\<close> with the same marker asks for
  the state \<^verbatim>\<open>all\<close> and answers.
\<close>
theorem list_issues_hands_state_on:
  "list_issues gh deps state = list_repository_issues gh (repo_name deps) state (token deps)
   \<and> list_issues sample_github sample_deps (PyObject ''FieldInfo'') = Inl AssertionError
   \<and> analyze_issues sample_lower sample_github sample_deps (PyStr ''bug'') (PyObject ''FieldInfo'')
       = Inr \<lparr>issues = [issue_fix_bug],
              issues_summary = ''Found 1 issues matching 'bug' with state 'all'.''\<rparr>"
  by (simp add: list_issues_def analyze_issues_def sample_github_def sample_deps_def Let_def
      issue_matches_def sample_lower_words issue_fix_bug_def issue_add_feature_def str_nat_1
      quoted_def)

section \<open>Saving and loading the history\<close>

lemma history_filename_eq:
  "r \<noteq> [] \<Longrightarrow>
   get_history_filename r = Some (''chat_history/'' @ replace_slash r @ ''_history.json'')"
proof -
  assume "r \<noteq> []"
  have "hd (replace_slash r @ ''_history.json'') \<noteq> CHR ''/''"
    using replace_slash_no_slash[of r] by (cases "replace_slash r") auto
  then show ?thesis using \<open>r \<noteq> []\<close>
    by (simp add: get_history_filename_def os_path_join_def HISTORY_DIR_def)
qed

lemma open_w_path: "open_w fs p = Inr f \<Longrightarrow> f = p"
  by (auto simp: open_w_def split: if_splits)

lemma load_after_save_pydantic:
  assumes "open_w fs filename = Inr f"
  shows "load_after_save pydantic_serializer ms filename fs = Inr (map jsonable_message ms)"
proof -
  have f: "f = filename" using assms by (rule open_w_path)
  have n: "list_all native_message (map jsonable_message ms)"
    by (simp add: list_all_iff native_jsonable_message)
  show ?thesis
    using assms n unfolding f
    by (simp add: load_after_save_def save_messages_to_json_def load_messages_from_json_def
        pydantic_serializer_def os_path_exists_def open_r_def)
qed

lemma dirname_under:
  assumes "CHR ''/'' \<notin> set n" "CHR ''/'' \<notin> set d" "d \<noteq> []"
  shows "os_path_dirname (d @ CHR ''/'' # n) = d"
proof -
  have 1: "dropWhile (\<lambda>c. c \<noteq> CHR ''/'') (rev n @ CHR ''/'' # rev d) = CHR ''/'' # rev d"
    using assms(1) by (simp add: dropWhile_append3 dropWhile_append)
  have 2: "\<not> list_all (\<lambda>c. c = CHR ''/'') (d @ [CHR ''/''])"
    using assms(2,3) by (cases d) auto
  have 3: "dropWhile (\<lambda>c. c = CHR ''/'') (rev d) = rev d"
    using assms(2,3) by (cases "rev d") auto
  show ?thesis
    unfolding os_path_dirname_def Let_def using 1 2 3 by simp
qed

lemma history_location_opens:
  assumes k: "get_history_filename r = Some filename"
    and len: "length r \<le> 242" and nul: "CHR 0x00 \<notin> set r"
    and d: "fs HISTORY_DIR = Some Dir" and nd: "fs filename \<noteq> Some Dir"
  shows "open_w fs filename = Inr filename"
proof -
  define n where "n = replace_slash r @ ''_history.json''"
  have r: "r \<noteq> []" using k by (auto simp: get_history_filename_def split: if_splits)
  have fn: "filename = ''chat_history'' @ CHR ''/'' # n"
    using k history_filename_eq[OF r] by (simp add: n_def)
  have ns: "CHR ''/'' \<notin> set n"
    using replace_slash_no_slash[of r] by (simp add: n_def)
  have sp: "split_slash filename = [''chat_history'', n]"
    unfolding fn using ns by (simp add: split_slash_sep split_slash_no_sep)
  have "CHR 0x00 \<notin> set (replace_slash r)"
    using nul by (auto simp: replace_slash_def)
  then have pn: "plain_name n"
    using len by (auto simp: plain_name_def n_def replace_slash_def)
  have pc: "plain_name ''chat_history''" by (simp add: plain_name_def)
  have "length filename < 4096" using len by (simp add: fn n_def replace_slash_def)
  then have pp: "plain_path filename"
    by (simp add: plain_path_def sp pn pc)
  have dn: "os_path_dirname filename = ''chat_history''"
    unfolding fn by (rule dirname_under) (use ns in simp_all)
  show ?thesis
    using pp nd d by (simp add: open_w_def dn HISTORY_DIR_def)
qed

text \<open>
  Claim C3, amended. At a location that can be opened for writing, loading after
  saving returns the history with every tool argument and tool result in its JSON
  form; it returns the history itself exactly when all of them are JSON values
  already. In particular, for a repository key of at most 242 bytes without a NUL
  byte, in a file system that has the history directory and no directory at the
  key's location, a history that carries JSON values only comes back as it was
  saved.
\<close>
theorem load_after_save_roundtrip:
  "(open_w fs filename = Inr f \<longrightarrow>
      load_after_save pydantic_serializer ms filename fs = Inr (map jsonable_message ms))
   \<and> (open_w fs filename = Inr f \<longrightarrow>
      (load_after_save pydantic_serializer ms filename fs = Inr ms) = list_all native_message ms)
   \<and> (get_history_filename r = Some location \<and> length r \<le> 242 \<and> CHR 0x00 \<notin> set r
       \<and> fs' HISTORY_DIR = Some Dir \<and> fs' location \<noteq> Some Dir \<and> list_all native_message ms \<longrightarrow>
      load_after_save pydantic_serializer ms location fs' = Inr ms)"
proof (intro conjI impI)
  assume "open_w fs filename = Inr f"
  then show "load_after_save pydantic_serializer ms filename fs = Inr (map jsonable_message ms)"
    by (rule load_after_save_pydantic)
next
  assume "open_w fs filename = Inr f"
  then show "(load_after_save pydantic_serializer ms filename fs = Inr ms) = list_all native_message ms"
    by (simp add: load_after_save_pydantic jsonable_history_fixed)
next
  assume h: "get_history_filename r = Some location \<and> length r \<le> 242 \<and> CHR 0x00 \<notin> set r
       \<and> fs' HISTORY_DIR = Some Dir \<and> fs' location \<noteq> Some Dir \<and> list_all native_message ms"
  then have "open_w fs' location = Inr location"
    by (intro history_location_opens[of r]) simp_all
  then show "load_after_save pydantic_serializer ms location fs' = Inr ms"
    using h by (simp add: load_after_save_pydantic jsonable_history_fixed)
qed

lemma sample_location:
  "get_history_filename ''octocat/hello'' = Some ''chat_history/octocat_hello_history.json''"
  by (simp add: get_history_filename_def os_path_join_def HISTORY_DIR_def replace_slash_def)

lemma sample_location_opens:
  "open_w history_fs ''chat_history/octocat_hello_history.json''
     = Inr ''chat_history/octocat_hello_history.json''"
  by (rule history_location_opens[of "''octocat/hello''"])
     (simp_all add: sample_location history_fs_def HISTORY_DIR_def)

lemma readme_history_native: "list_all native_message readme_history"
  by (simp add: readme_history_def file_entry_dict_def readme_entry_def)

text \<open>The two sample histories at the location of the key \<^verbatim>\<open>octocat/hello\<close>: the one
  with the file dictionary comes back, the one with the model instance does not.\<close>
theorem load_after_save_roundtrip_witness:
  "open_w history_fs ''chat_history/octocat_hello_history.json''
     = Inr ''chat_history/octocat_hello_history.json''
   \<and> get_history_filename ''octocat/hello'' = Some ''chat_history/octocat_hello_history.json''
   \<and> length ''octocat/hello'' \<le> 242 \<and> CHR 0x00 \<notin> set ''octocat/hello''
   \<and> history_fs HISTORY_DIR = Some Dir
   \<and> history_fs ''chat_history/octocat_hello_history.json''
       \<noteq> Some Dir
   \<and> list_all native_message readme_history
   \<and> load_after_save pydantic_serializer readme_history
        ''chat_history/octocat_hello_history.json'' history_fs = Inr readme_history
   \<and> \<not> list_all native_message issues_history
   \<and> load_after_save pydantic_serializer issues_history
        ''chat_history/octocat_hello_history.json'' history_fs
       = Inr (map jsonable_message issues_history)
   \<and> load_after_save pydantic_serializer issues_history
        ''chat_history/octocat_hello_history.json'' history_fs \<noteq> Inr issues_history"
proof -
  have fs: "history_fs HISTORY_DIR = Some Dir"
    "history_fs ''chat_history/octocat_hello_history.json''
       \<noteq> Some Dir"
    by (simp_all add: history_fs_def HISTORY_DIR_def)
  have k: "length ''octocat/hello'' \<le> 242" "CHR 0x00 \<notin> set ''octocat/hello''"
    by simp_all
  have nn: "\<not> list_all native_message issues_history"
    by (simp add: issues_history_def IssueAnalysisResult_value_def)
  show ?thesis
    using sample_location_opens sample_location fs k readme_history_native nn
      load_after_save_roundtrip
        [of history_fs "''chat_history/octocat_hello_history.json''"
            "''chat_history/octocat_hello_history.json''" readme_history
            "''octocat/hello''" "''chat_history/octocat_hello_history.json''" history_fs]
      load_after_save_roundtrip
        [of history_fs "''chat_history/octocat_hello_history.json''"
            "''chat_history/octocat_hello_history.json''" issues_history]
    by blast
qed

text \<open>The JSON form of an issue's dictionary: the two \<^verbatim>\<open>datetime\<close> entries are
  texts.\<close>

lemma to_jsonable_issue_dict:
  "to_jsonable (issue_dict i) =
     PDict [(''number'', PInt (issue_number i)),
            (''title'', PText (issue_title i)),
            (''state'', PText (issue_state i)),
            (''html_url'', PText (issue_html_url i)),
            (''created_at'', PText (issue_created_at i)),
            (''updated_at'', PText (issue_updated_at i)),
            (''user'', PText (issue_user i)),
            (''labels'', PList (map PText (issue_labels i))),
            (''comments'', PInt (issue_comments i))]"
  by (simp add: issue_dict_def comp_def)

text \<open>
  Claim C3 as it is written holds for every non-empty history. The history in
  which \<^verbatim>\<open>analyze_issues\<close> was called is saved without error at the location of
  the key \<^verbatim>\<open>octocat/hello\<close>, with the history directory in place; what is loaded
  holds a dictionary where the history held the \<^verbatim>\<open>IssueAnalysisResult\<close>, and
  texts where the issue held its two \<^verbatim>\<open>datetime\<close> values.
\<close>
theorem tool_result_comes_back_as_dictionary:
  "issues_history \<noteq> []
   \<and> get_history_filename ''octocat/hello'' = Some ''chat_history/octocat_hello_history.json''
   \<and> open_w history_fs ''chat_history/octocat_hello_history.json''
       = Inr ''chat_history/octocat_hello_history.json''
   \<and> load_after_save pydantic_serializer issues_history
        ''chat_history/octocat_hello_history.json'' history_fs
       = Inr [UserMessage ''Which issues mention a bug?'',
              ToolCall ''analyze_issues'' (PDict [(''query'', PText ''bug'')]),
              ToolResult ''analyze_issues''
                (PDict [(''issues'', PList [to_jsonable (issue_dict issue_fix_bug)]),
                        (''summary'', PText ''Found 1 issues matching 'bug' with state 'all'.'')]),
              AssistantMessage ''One issue mentions a bug: Fix bug.'']
   \<and> load_after_save pydantic_serializer issues_history
        ''chat_history/octocat_hello_history.json'' history_fs \<noteq> Inr issues_history"
  by (simp add: load_after_save_pydantic[OF sample_location_opens] sample_location
      sample_location_opens issues_history_def IssueAnalysisResult_value_def)

text \<open>Without the history directory the file cannot be opened; the save drops the
  error and the load finds nothing.\<close>
lemma failed_save_is_dropped:
  "open_w empty_fs ''chat_history/octocat_hello_history.json'' = Inl OSError"
  "load_after_save pydantic_serializer readme_history
     ''chat_history/octocat_hello_history.json'' empty_fs = Inr []"
  by (simp_all add: open_w_def plain_path_def plain_name_def empty_fs_def
      os_path_dirname_def load_after_save_def save_messages_to_json_def load_messages_from_json_def
      pydantic_serializer_def os_path_exists_def)

text \<open>
  Claim C8. At a location that does not exist, \<^verbatim>\<open>load_messages_from_json\<close>
  returns the empty history; and at every location, with every file system and
  serializer, it returns a history and raises nothing.
\<close>
theorem load_missing_file_is_empty:
  "(\<not> os_path_exists fs filename \<longrightarrow> load_messages_from_json ser fs filename = Inr [])
   \<and> (\<exists>ms. load_messages_from_json ser fs filename = Inr ms)"
  by (auto simp: load_messages_from_json_def intro: try_except_total)

text \<open>The load in the empty file system.\<close>
theorem load_missing_file_witness:
  "\<not> os_path_exists empty_fs ''chat_history/o_r_history.json''
   \<and> load_messages_from_json text_serializer empty_fs ''chat_history/o_r_history.json'' = Inr []"
  using load_missing_file_is_empty [of empty_fs "''chat_history/o_r_history.json''" text_serializer]
  by (simp add: os_path_exists_def empty_fs_def)

section \<open>The issue and commit filters\<close>



















section \<open>The context composer\<close>

lemma fallback_instruction_mentions:
  "fallback_instruction rn \<noteq> [] \<and> sublist rn (fallback_instruction rn)"
proof
  show "fallback_instruction rn \<noteq> []"
    by (simp add: fallback_instruction_def)
  show "sublist rn (fallback_instruction rn)"
    unfolding fallback_instruction_def by (rule sublist_append_leftI)
qed

lemma repository_context_split:
  "split_slash (repo_name deps) = [username, repo] \<Longrightarrow>
   repository_context gh today now deps =
     try_except
       (case list_user_repositories gh (token deps) username of
          Inl e \<Rightarrow> Inl e
        | Inr repos \<Rightarrow>
            (case find (\<lambda>r. repo_full_name r = repo_name deps) repos of
               Some info \<Rightarrow> Inr (enriched_instruction (repo_name deps) info today now)
             | None \<Rightarrow> Inr (fallback_instruction (repo_name deps))))
       (\<lambda>e. Inr (fallback_instruction (repo_name deps)))"
  by (simp add: repository_context_def)

text \<open>
  Claim C6. For an identifier in \<^verbatim>\<open>owner/name\<close> form, when fetching the owner's
  repositories raises any exception, or returns a list without the repository,
  \<^verbatim>\<open>repository_context\<close> returns the fallback instruction; that instruction is
  not empty and contains the identifier.
\<close>
theorem repository_context_falls_back:
  assumes "split_slash (repo_name deps) = [username, repo]"
  shows "(list_user_repositories gh (token deps) username = Inl e \<longrightarrow>
            repository_context gh today now deps = Inr (fallback_instruction (repo_name deps)))
       \<and> (list_user_repositories gh (token deps) username = Inr repos \<and>
            find (\<lambda>r. repo_full_name r = repo_name deps) repos = None \<longrightarrow>
            repository_context gh today now deps = Inr (fallback_instruction (repo_name deps)))
       \<and> fallback_instruction (repo_name deps) \<noteq> []
       \<and> sublist (repo_name deps) (fallback_instruction (repo_name deps))"
  using fallback_instruction_mentions[of "repo_name deps"]
  by (simp add: repository_context_split[OF assms])

text \<open>The fallback on the sample layer: for the unknown user \<^verbatim>\<open>ghost\<close> the fetch
  fails with "Not Found", for \<^verbatim>\<open>octocat\<close> it returns no repository.\<close>
theorem repository_context_falls_back_witness:
  "split_slash ''ghost/hello'' = [''ghost'', ''hello'']
   \<and> list_user_repositories sample_github ''t'' ''ghost'' = Inl (GithubException ''Not Found'')
   \<and> repository_context sample_github ''2025-01-01'' ''12:00:00''
         \<lparr>token = ''t'', repo_name = ''ghost/hello''\<rparr>
       = Inr ''You are currently answering questions about the repository: ghost/hello''
   \<and> split_slash ''octocat/hello'' = [''octocat'', ''hello'']
   \<and> list_user_repositories sample_github ''t'' ''octocat'' = Inr []
   \<and> find (\<lambda>r. repo_full_name r = ''octocat/hello'') [] = None
   \<and> repository_context sample_github ''2025-01-01'' ''12:00:00'' sample_deps
       = Inr ''You are currently answering questions about the repository: octocat/hello''
   \<and> sublist ''octocat/hello''
        ''You are currently answering questions about the repository: octocat/hello''"
proof -
  have s1: "split_slash (repo_name \<lparr>token = ''t'', repo_name = ''ghost/hello''\<rparr>) = [''ghost'', ''hello'']"
    by simp
  have s2: "split_slash (repo_name sample_deps) = [''octocat'', ''hello'']"
    by (simp add: sample_deps_def)
  have t: "fallback_instruction ''octocat/hello''
       = ''You are currently answering questions about the repository: octocat/hello''"
    "fallback_instruction ''ghost/hello''
       = ''You are currently answering questions about the repository: ghost/hello''"
    by (simp_all add: fallback_instruction_def)
  show ?thesis
    using repository_context_falls_back
      [OF s1, of sample_github "GithubException ''Not Found''" "''2025-01-01''" "''12:00:00''" "[]"]
      repository_context_falls_back
      [OF s2, of sample_github "GithubException ''Not Found''" "''2025-01-01''" "''12:00:00''" "[]"]
    by (simp add: sample_deps_def sample_github_def t)
qed

text \<open>
  Claim C10. The identifier is split and unpacked before the \<^verbatim>\<open>try\<close>: when it
  does not hold exactly one separator, \<^verbatim>\<open>repository_context\<close> raises the unpack
  error, whatever the data access layer does; when it holds exactly one, it
  returns an instruction.
\<close>
theorem repository_context_unpack_precondition:
  "(count_list (repo_name deps) CHR ''/'' \<noteq> 1 \<longrightarrow>
      repository_context gh today now deps = Inl UnpackError)
   \<and> (count_list (repo_name deps) CHR ''/'' = 1 \<longrightarrow>
      (\<exists>text. repository_context gh today now deps = Inr text))"
proof (intro conjI impI)
  assume "count_list (repo_name deps) CHR ''/'' \<noteq> 1"
  then have "\<not> (\<exists>u r. split_slash (repo_name deps) = [u, r])"
    by (simp only: split_slash_two not_False_eq_True)
  then show "repository_context gh today now deps = Inl UnpackError"
    by (auto simp: repository_context_def split: list.splits)
next
  assume "count_list (repo_name deps) CHR ''/'' = 1"
  then obtain u r where s: "split_slash (repo_name deps) = [u, r]"
    using split_slash_two[of "repo_name deps"] by auto
  show "\<exists>text. repository_context gh today now deps = Inr text"
    unfolding repository_context_split[OF s]
    by (rule try_except_total) simp
qed

text \<open>The identifiers \<^verbatim>\<open>abc\<close>, \<^verbatim>\<open>a/b/c\<close> and \<^verbatim>\<open>octocat/hello\<close>.\<close>
theorem repository_context_unpack_witness:
  "count_list ''abc'' CHR ''/'' = 0
   \<and> repository_context sample_github ''2025-01-01'' ''12:00:00''
        \<lparr>token = ''t'', repo_name = ''abc''\<rparr> = Inl UnpackError
   \<and> count_list ''a/b/c'' CHR ''/'' = 2
   \<and> repository_context sample_github ''2025-01-01'' ''12:00:00''
        \<lparr>token = ''t'', repo_name = ''a/b/c''\<rparr> = Inl UnpackError
   \<and> count_list ''octocat/hello'' CHR ''/'' = 1
   \<and> (\<exists>text. repository_context sample_github ''2025-01-01'' ''12:00:00''
                \<lparr>token = ''t'', repo_name = ''octocat/hello''\<rparr> = Inr text)"
  using repository_context_unpack_precondition
      [of "\<lparr>token = ''t'', repo_name = ''abc''\<rparr>" sample_github "''2025-01-01''" "''12:00:00''"]
    repository_context_unpack_precondition
      [of "\<lparr>token = ''t'', repo_name = ''a/b/c''\<rparr>" sample_github "''2025-01-01''" "''12:00:00''"]
    repository_context_unpack_precondition
      [of "\<lparr>token = ''t'', repo_name = ''octocat/hello''\<rparr>" sample_github "''2025-01-01''" "''12:00:00''"]
  by simp

section \<open>The content tools\<close>

text \<open>
  Claim C7. When the content at the path is a single dictionary (a file, whatever
  its type tag), \<^verbatim>\<open>list_directory_contents\<close> raises a \<^verbatim>\<open>ValueError\<close> and
  returns no list; when the content is not a single dictionary with the type tag
  \<^verbatim>\<open>file\<close>, \<^verbatim>\<open>get_file_content\<close> raises a \<^verbatim>\<open>ValueError\<close>.
\<close>
theorem content_tools_validate_shape:
  "(get_repository_content gh (repo_name deps) path (token deps) = Inr (Single d) \<longrightarrow>
      list_directory_contents gh deps path =
        Inl (ValueError (''Path '' @ quoted (format_value path) @ '' does not point to a directory'')))
   \<and> (get_repository_content gh (repo_name deps) path (token deps) = Inr c \<and>
        (\<forall>f. c = Single f \<longrightarrow> entry_type f \<noteq> ''file'') \<longrightarrow>
      get_file_content gh deps path =
        Inl (ValueError (''Path '' @ quoted (format_value path) @ '' does not point to a file'')))"
  by (auto simp: list_directory_contents_def get_file_content_def split: repo_content.splits)

text \<open>Listing the file \<^verbatim>\<open>README.md\<close> and reading the root directory as a file.\<close>
theorem content_tools_validate_shape_witness:
  "get_repository_content sample_github (repo_name sample_deps) (PyStr ''README.md'') (token sample_deps)
     = Inr (Single readme_entry)
   \<and> entry_type readme_entry = ''file''
   \<and> list_directory_contents sample_github sample_deps (PyStr ''README.md'')
       = Inl (ValueError (''Path '' @ quoted ''README.md'' @ '' does not point to a directory''))
   \<and> get_repository_content sample_github (repo_name sample_deps) (PyStr []) (token sample_deps)
       = Inr (Listing [dir_entry.truncate readme_entry])
   \<and> get_file_content sample_github sample_deps (PyStr [])
       = Inl (ValueError (''Path '' @ quoted [] @ '' does not point to a file''))"
  using content_tools_validate_shape
      [of sample_github sample_deps "PyStr ''README.md''" readme_entry]
    content_tools_validate_shape
      [of sample_github sample_deps "PyStr []" _ "Listing [dir_entry.truncate readme_entry]"]
  by (simp add: sample_github_def readme_entry_def)

section \<open>History file names\<close>

lemma valid_repo_idD:
  "valid_repo_id r \<Longrightarrow>
   \<exists>p q. r = p @ CHR ''/'' # q \<and> CHR ''/'' \<notin> set p \<and> CHR ''/'' \<notin> set q \<and> p \<noteq> [] \<and> q \<noteq> []"
  unfolding valid_repo_id_def
  by (auto split: list.splits simp: split_slash_pair)

text \<open>
  Claim C9, amended. Two distinct identifiers in \<^verbatim>\<open>owner/name\<close> form whose
  owners contain no underscore get distinct history file names. (The file name is
  a function of the identifier, so it is the same each time.)
\<close>
theorem history_filename_injective:
  assumes "valid_repo_id r1" "valid_repo_id r2"
    and "CHR ''_'' \<notin> set (repo_owner r1)" "CHR ''_'' \<notin> set (repo_owner r2)"
    and "r1 \<noteq> r2"
  shows "get_history_filename r1 \<noteq> get_history_filename r2"
proof
  assume same: "get_history_filename r1 = get_history_filename r2"
  obtain p1 q1 where r1: "r1 = p1 @ CHR ''/'' # q1" "CHR ''/'' \<notin> set p1" "CHR ''/'' \<notin> set q1"
    using valid_repo_idD[OF assms(1)] by blast
  obtain p2 q2 where r2: "r2 = p2 @ CHR ''/'' # q2" "CHR ''/'' \<notin> set p2" "CHR ''/'' \<notin> set q2"
    using valid_repo_idD[OF assms(2)] by blast
  have o1: "repo_owner r1 = p1" using r1 by (simp add: repo_owner_def takeWhile_sep)
  have o2: "repo_owner r2 = p2" using r2 by (simp add: repo_owner_def takeWhile_sep)
  have u1: "CHR ''_'' \<notin> set p1" using assms(3) o1 by simp
  have u2: "CHR ''_'' \<notin> set p2" using assms(4) o2 by simp
  have s1: "replace_slash r1 = p1 @ CHR ''_'' # q1"
    using r1 by (simp add: replace_slash_append replace_slash_id replace_slash_sep)
  have s2: "replace_slash r2 = p2 @ CHR ''_'' # q2"
    using r2 by (simp add: replace_slash_append replace_slash_id replace_slash_sep)
  have "r1 \<noteq> []" "r2 \<noteq> []" using r1 r2 by auto
  with same have "replace_slash r1 = replace_slash r2"
    by (simp add: history_filename_eq)
  then have eq: "p1 @ CHR ''_'' # q1 = p2 @ CHR ''_'' # q2" using s1 s2 by simp
  have "takeWhile (\<lambda>x. x \<noteq> CHR ''_'') (p1 @ CHR ''_'' # q1) = p1"
    using u1 by (rule takeWhile_sep)
  moreover have "takeWhile (\<lambda>x. x \<noteq> CHR ''_'') (p2 @ CHR ''_'' # q2) = p2"
    using u2 by (rule takeWhile_sep)
  ultimately have "p1 = p2" using eq by simp
  with eq have "q1 = q2" by simp
  with \<open>p1 = p2\<close> r1 r2 have "r1 = r2" by simp
  with assms(5) show False by simp
qed

text \<open>Two repositories of one owner.\<close>
theorem history_filename_injective_witness:
  "valid_repo_id ''octocat/hello_world'' \<and> valid_repo_id ''octocat/hello''
   \<and> CHR ''_'' \<notin> set (repo_owner ''octocat/hello_world'')
   \<and> CHR ''_'' \<notin> set (repo_owner ''octocat/hello'')
   \<and> ''octocat/hello_world'' \<noteq> ''octocat/hello''
   \<and> get_history_filename ''octocat/hello_world'' \<noteq> get_history_filename ''octocat/hello''"
proof -
  have v: "valid_repo_id ''octocat/hello_world''" "valid_repo_id ''octocat/hello''"
    by (simp_all add: valid_repo_id_def)
  have u: "CHR ''_'' \<notin> set (repo_owner ''octocat/hello_world'')"
    "CHR ''_'' \<notin> set (repo_owner ''octocat/hello'')"
    by (simp_all add: repo_owner_def)
  have d: "''octocat/hello_world'' \<noteq> ''octocat/hello''" by simp
  show ?thesis
    using v u d history_filename_injective[OF v u d] by blast
qed

text \<open>
  Claim C9 as it is written holds for any two distinct identifiers in
  \<^verbatim>\<open>owner/name\<close> form. The identifiers \<^verbatim>\<open>a_b/c\<close> and \<^verbatim>\<open>a/b_c\<close> are distinct
  and get the same file name.
\<close>
theorem history_filename_collision:
  "valid_repo_id ''a_b/c'' \<and> valid_repo_id ''a/b_c'' \<and> ''a_b/c'' \<noteq> ''a/b_c''
   \<and> get_history_filename ''a_b/c'' = Some ''chat_history/a_b_c_history.json''
   \<and> get_history_filename ''a/b_c'' = Some ''chat_history/a_b_c_history.json''"
  by (simp add: valid_repo_id_def get_history_filename_def os_path_join_def HISTORY_DIR_def
      replace_slash_def)

end
